theory Spec2Isabelle
  imports Complex_Main
begin

section \<open>Python values and exceptions\<close>

text \<open>
  The health checker keeps its report in \<^verbatim>\<open>self.health_data\<close>, a dictionary of
  nested dictionaries, lists, strings and numbers. A dictionary is an association list in
  insertion order, as Python iterates it. Floats are modelled as reals and strings as
  lists of characters with code points below 256.
\<close>

datatype pyval =
    PNone
  | PInt int
  | PFloat real
  | PStr string
  | PList "pyval list"
  | PDict "(string \<times> pyval) list"

datatype py_exn =
    KeyError string
  | TypeError
  | AttributeError
  | PermissionError
  | OSError

fun exn_class :: "py_exn \<Rightarrow> string" where
  "exn_class (KeyError k) = ''KeyError''"
| "exn_class TypeError = ''TypeError''"
| "exn_class AttributeError = ''AttributeError''"
| "exn_class PermissionError = ''PermissionError''"
| "exn_class OSError = ''OSError''"

text \<open>Sequencing of a computation that may raise: the first exception is the result.\<close>

fun bind_r :: "py_exn + 'a \<Rightarrow> ('a \<Rightarrow> py_exn + 'b) \<Rightarrow> py_exn + 'b" where
  "bind_r (Inl e) f = Inl e"
| "bind_r (Inr x) f = f x"

fun map_r :: "('a \<Rightarrow> py_exn + 'b) \<Rightarrow> 'a list \<Rightarrow> py_exn + 'b list" where
  "map_r f [] = Inr []"
| "map_r f (x # xs) = bind_r (f x) (\<lambda>y. bind_r (map_r f xs) (\<lambda>ys. Inr (y # ys)))"

text \<open>\<^verbatim>\<open>v[key]\<close> with a string key: only a dictionary can be subscripted by a string.\<close>

fun py_getitem :: "pyval \<Rightarrow> string \<Rightarrow> py_exn + pyval" where
  "py_getitem (PDict kvs) k = (case map_of kvs k of None \<Rightarrow> Inl (KeyError k) | Some v \<Rightarrow> Inr v)"
| "py_getitem v k = Inl TypeError"

text \<open>
  \<^verbatim>\<open>for x in v\<close>: a list yields its elements, a dictionary its keys, a string its
  characters; \<^verbatim>\<open>None\<close> and numbers are not iterable.
\<close>

fun py_iter :: "pyval \<Rightarrow> py_exn + pyval list" where
  "py_iter (PList xs) = Inr xs"
| "py_iter (PDict kvs) = Inr (map (\<lambda>kv. PStr (fst kv)) kvs)"
| "py_iter (PStr s) = Inr (map (\<lambda>c. PStr [c]) s)"
| "py_iter v = Inl TypeError"

section \<open>Classification and aggregation\<close>

text \<open>\<^verbatim>\<open>SystemHealthChecker._get_status\<close>: the cut-offs 60 and 80 are literals of the method.\<close>

definition get_status :: "real \<Rightarrow> string" where
  "get_status percent =
     (if percent < 60 then ''HEALTHY''
      else if percent < 80 then ''WARNING''
      else ''CRITICAL'')"

text \<open>
  \<^verbatim>\<open>SystemHealthChecker.get_overall_health\<close>. The local \<^verbatim>\<open>worst_disk_status\<close>
  and the final reduction over \<^verbatim>\<open>statuses\<close> are the two \<^verbatim>\<open>if/elif\<close> chains of the
  method; \<^verbatim>\<open>x in xs\<close> compares with \<^verbatim>\<open>==\<close>, which for a string literal is equality
  with a string of the same characters.
\<close>

definition worst_disk_status :: "pyval list \<Rightarrow> string" where
  "worst_disk_status disk_statuses =
     (if PStr ''CRITICAL'' \<in> set disk_statuses then ''CRITICAL''
      else if PStr ''WARNING'' \<in> set disk_statuses then ''WARNING''
      else ''HEALTHY'')"

definition worst_of :: "pyval list \<Rightarrow> string" where
  "worst_of statuses =
     (if PStr ''CRITICAL'' \<in> set statuses then ''CRITICAL''
      else if PStr ''WARNING'' \<in> set statuses then ''WARNING''
      else ''HEALTHY'')"

definition get_overall_health :: "(string \<times> pyval) list \<Rightarrow> py_exn + string" where
  "get_overall_health health_data =
     bind_r (py_getitem (PDict health_data) ''cpu'') (\<lambda>cpu.
     bind_r (py_getitem cpu ''status'') (\<lambda>cpu_status.
     bind_r (py_getitem (PDict health_data) ''memory'') (\<lambda>memory.
     bind_r (py_getitem memory ''status'') (\<lambda>memory_status.
     bind_r (py_getitem (PDict health_data) ''disk'') (\<lambda>disks.
     bind_r (py_iter disks) (\<lambda>disk_list.
     bind_r (map_r (\<lambda>disk. py_getitem disk ''status'') disk_list) (\<lambda>disk_statuses.
       Inr (worst_of [cpu_status, memory_status, PStr (worst_disk_status disk_statuses)]))))))))"

text \<open>
  The severity order HEALTHY < WARNING < CRITICAL of the status strings, as a rank. A
  value that is neither of the two alarming strings ranks with HEALTHY, which is how both
  reductions above treat it.
\<close>

definition severity :: "pyval \<Rightarrow> nat" where
  "severity s = (if s = PStr ''CRITICAL'' then 2 else if s = PStr ''WARNING'' then 1 else 0)"

definition is_status :: "pyval \<Rightarrow> bool" where
  "is_status s = (s = PStr ''HEALTHY'' \<or> s = PStr ''WARNING'' \<or> s = PStr ''CRITICAL'')"

text \<open>A report dictionary whose \<^verbatim>\<open>status\<close> entry is \<open>s\<close>, next to any other entries.\<close>

definition has_status :: "pyval \<Rightarrow> pyval \<Rightarrow> bool" where
  "has_status report s = (case report of PDict kvs \<Rightarrow> map_of kvs ''status'' = Some s | _ \<Rightarrow> False)"

section \<open>The metrics provider\<close>

text \<open>
  What \<^verbatim>\<open>psutil\<close> and \<^verbatim>\<open>platform\<close> hand to one collection pass. The named tuples
  keep the fields the checker reads. A call the checker makes several times has one
  sample per call, since the operating system may answer each differently. Of the
  provider's calls only \<^verbatim>\<open>psutil.disk_usage\<close> is given an outcome that may be an
  exception, as it is the one call the checker guards.
\<close>

record sdiskpart =
  device :: string
  mountpoint :: string
  fstype :: string

record sdiskusage =
  du_total :: nat
  du_used :: nat
  du_free :: nat
  du_percent :: real

record svmem =
  vm_total :: nat
  vm_available :: nat
  vm_used :: nat
  vm_percent :: real

record sswap =
  sw_total :: nat
  sw_used :: nat
  sw_percent :: real

record snetio =
  bytes_sent :: nat
  bytes_recv :: nat
  packets_sent :: nat
  packets_recv :: nat
  errin :: nat
  errout :: nat

record scpufreq =
  freq_current :: real
  freq_min :: real
  freq_max :: real

text \<open>The \<^verbatim>\<open>info\<close> dictionary of a process; psutil stores \<^verbatim>\<open>None\<close> for a field it was denied.\<close>

record proc_info =
  pid :: int
  name :: "string option"
  cpu_percent :: "real option"
  memory_percent :: "real option"

record provider =
  platform_node :: string
  platform_system :: string
  platform_version :: string
  platform_machine :: string
  platform_processor :: string
  platform_python_version :: string
  cpu_percent_percpu :: "real list"
  cpu_count_physical :: "int option"
  cpu_count_logical :: "int option"
  cpu_percent_total :: real
  cpu_freq_test :: "scpufreq option"
  cpu_freq_value :: "scpufreq option"
  cpu_percent_status :: real
  virtual_memory :: svmem
  swap_memory :: sswap
  disk_partitions :: "(sdiskpart \<times> (py_exn + sdiskusage)) list"
  net_io_counters :: snetio
  net_if_addrs :: "string list"
  pids :: "int list"
  process_iter :: "proc_info list"

section \<open>Subsystem evaluation\<close>

text \<open>
  \<^verbatim>\<open>round(x, 2)\<close>: to the nearest hundredth, a tie going to the even neighbour.
\<close>

definition py_round2 :: "real \<Rightarrow> real" where
  "py_round2 x =
     (let y = x * 100; f = \<lfloor>y\<rfloor>; d = y - of_int f
      in of_int (if d < 1 / 2 then f else if 1 / 2 < d then f + 1
                 else if even f then f else f + 1) / 100)"

definition gb :: "nat \<Rightarrow> pyval" where
  "gb n = PFloat (py_round2 (real n / 1024 ^ 3))"

definition mb :: "nat \<Rightarrow> pyval" where
  "mb n = PFloat (py_round2 (real n / 1024 ^ 2))"

definition opt_int :: "int option \<Rightarrow> pyval" where
  "opt_int x = (case x of None \<Rightarrow> PNone | Some i \<Rightarrow> PInt i)"

definition opt_float :: "real option \<Rightarrow> pyval" where
  "opt_float x = (case x of None \<Rightarrow> PNone | Some r \<Rightarrow> PFloat r)"

definition opt_str :: "string option \<Rightarrow> pyval" where
  "opt_str x = (case x of None \<Rightarrow> PNone | Some s \<Rightarrow> PStr s)"

definition get_system_info :: "provider \<Rightarrow> pyval" where
  "get_system_info p = PDict
     [(''hostname'', PStr (platform_node p)),
      (''platform'', PStr (platform_system p)),
      (''platform_version'', PStr (platform_version p)),
      (''architecture'', PStr (platform_machine p)),
      (''processor'', PStr (platform_processor p)),
      (''python_version'', PStr (platform_python_version p))]"

text \<open>
  \<^verbatim>\<open>psutil.cpu_freq()._asdict() if psutil.cpu_freq() else None\<close> calls the provider
  twice, the test first; a named tuple of three fields is always true.
\<close>

definition get_cpu_info :: "provider \<Rightarrow> py_exn + pyval" where
  "get_cpu_info p =
     bind_r
       (case cpu_freq_test p of
          None \<Rightarrow> Inr PNone
        | Some t \<Rightarrow>
            (case cpu_freq_value p of
               None \<Rightarrow> Inl AttributeError
             | Some f \<Rightarrow> Inr (PDict
                 [(''current'', PFloat (freq_current f)),
                  (''min'', PFloat (freq_min f)),
                  (''max'', PFloat (freq_max f))])))
       (\<lambda>cpu_freq. Inr (PDict
         [(''cpu_count'', opt_int (cpu_count_physical p)),
          (''cpu_count_logical'', opt_int (cpu_count_logical p)),
          (''cpu_percent_total'', PFloat (cpu_percent_total p)),
          (''cpu_percent_per_core'', PList (map PFloat (cpu_percent_percpu p))),
          (''cpu_freq'', cpu_freq),
          (''status'', PStr (get_status (cpu_percent_status p)))]))"

definition get_memory_info :: "provider \<Rightarrow> pyval" where
  "get_memory_info p =
     (let memory = virtual_memory p; swap = swap_memory p
      in PDict
       [(''total_gb'', gb (vm_total memory)),
        (''available_gb'', gb (vm_available memory)),
        (''used_gb'', gb (vm_used memory)),
        (''percent_used'', PFloat (vm_percent memory)),
        (''swap_total_gb'', gb (sw_total swap)),
        (''swap_used_gb'', gb (sw_used swap)),
        (''swap_percent'', PFloat (sw_percent swap)),
        (''status'', PStr (get_status (vm_percent memory)))])"

definition disk_entry :: "sdiskpart \<Rightarrow> sdiskusage \<Rightarrow> pyval" where
  "disk_entry part usage = PDict
     [(''device'', PStr (device part)),
      (''mountpoint'', PStr (mountpoint part)),
      (''fstype'', PStr (fstype part)),
      (''total_gb'', gb (du_total usage)),
      (''used_gb'', gb (du_used usage)),
      (''free_gb'', gb (du_free usage)),
      (''percent_used'', PFloat (du_percent usage)),
      (''status'', PStr (get_status (du_percent usage)))]"

text \<open>
  \<^verbatim>\<open>get_disk_info\<close>: the loop over the partitions, each paired with the outcome of
  reading its usage. A \<^verbatim>\<open>PermissionError\<close> is caught and the loop continues; nothing is
  appended or noted for that partition. Any other exception leaves the method.
\<close>

fun get_disk_info_loop ::
  "(sdiskpart \<times> (py_exn + sdiskusage)) list \<Rightarrow> pyval list \<Rightarrow> py_exn + pyval list" where
  "get_disk_info_loop [] disk_data = Inr disk_data"
| "get_disk_info_loop ((part, outcome) # rest) disk_data =
     (case outcome of
        Inr usage \<Rightarrow> get_disk_info_loop rest (disk_data @ [disk_entry part usage])
      | Inl e \<Rightarrow> if e = PermissionError then get_disk_info_loop rest disk_data else Inl e)"

definition get_disk_info ::
  "(sdiskpart \<times> (py_exn + sdiskusage)) list \<Rightarrow> py_exn + pyval list" where
  "get_disk_info partitions = get_disk_info_loop partitions []"

definition get_network_info :: "provider \<Rightarrow> pyval" where
  "get_network_info p =
     (let net_io = net_io_counters p; interfaces = net_if_addrs p
      in PDict
       [(''bytes_sent_mb'', mb (bytes_sent net_io)),
        (''bytes_recv_mb'', mb (bytes_recv net_io)),
        (''packets_sent'', PInt (int (packets_sent net_io))),
        (''packets_recv'', PInt (int (packets_recv net_io))),
        (''errors_in'', PInt (int (errin net_io))),
        (''errors_out'', PInt (int (errout net_io))),
        (''interface_count'', PInt (int (length interfaces)))])"

text \<open>
  \<^verbatim>\<open>get_process_info\<close>. \<^verbatim>\<open>sorted(..., reverse=True)\<close> is a stable sort of the reversed
  list, reversed again; the key \<^verbatim>\<open>cpu_percent or 0\<close> reads \<^verbatim>\<open>None\<close> as 0. Rounding a
  \<^verbatim>\<open>memory_percent\<close> of \<^verbatim>\<open>None\<close> raises a \<^verbatim>\<open>TypeError\<close>, which the \<^verbatim>\<open>except\<close>
  clause of the loop does not catch.
\<close>

definition cpu_key :: "proc_info \<Rightarrow> real" where
  "cpu_key proc = (case cpu_percent proc of None \<Rightarrow> 0 | Some c \<Rightarrow> c)"

definition sorted_reverse :: "proc_info list \<Rightarrow> proc_info list" where
  "sorted_reverse procs = rev (sort_key cpu_key (rev procs))"

definition process_entry :: "proc_info \<Rightarrow> py_exn + pyval" where
  "process_entry proc =
     (case memory_percent proc of
        None \<Rightarrow> Inl TypeError
      | Some m \<Rightarrow> Inr (PDict
          [(''pid'', PInt (pid proc)),
           (''name'', opt_str (name proc)),
           (''cpu_percent'', opt_float (cpu_percent proc)),
           (''memory_percent'', PFloat (py_round2 m))]))"

definition get_process_info :: "provider \<Rightarrow> py_exn + pyval" where
  "get_process_info p =
     (let process_count = length (pids p)
      in bind_r (map_r process_entry (take 5 (sorted_reverse (process_iter p))))
           (\<lambda>processes. Inr (PDict
             [(''total_processes'', PInt (int process_count)),
              (''top_cpu_processes'', PList processes)])))"

section \<open>Collecting the report\<close>

text \<open>
  The checker object: its time stamp, kept as the text \<^verbatim>\<open>isoformat()\<close> gives, and
  \<^verbatim>\<open>health_data\<close>, an \<^verbatim>\<open>OrderedDict\<close>. Assigning to a key that is present replaces
  its value in place; a new key goes to the end.
\<close>

record checker =
  timestamp :: string
  health_data :: "(string \<times> pyval) list"

record world =
  stdout :: string
  files :: "string \<Rightarrow> string option"
  open_error :: "string \<Rightarrow> py_exn option"

definition SystemHealthChecker_init :: "string \<Rightarrow> checker" where
  "SystemHealthChecker_init now = \<lparr>timestamp = now, health_data = []\<rparr>"

fun od_set :: "string \<Rightarrow> pyval \<Rightarrow> (string \<times> pyval) list \<Rightarrow> (string \<times> pyval) list" where
  "od_set k v [] = [(k, v)]"
| "od_set k v ((k', v') # kvs) =
     (if k' = k then (k, v) # kvs else (k', v') # od_set k v kvs)"

definition print_line :: "string \<Rightarrow> world \<Rightarrow> world" where
  "print_line s w = w\<lparr>stdout := stdout w @ s @ [CHR 0x0A]\<rparr>"

definition collect_all_metrics ::
  "provider \<Rightarrow> checker \<times> world \<Rightarrow> py_exn + checker \<times> world" where
  "collect_all_metrics p cw =
     (let c = fst cw;
          w = print_line (''Collecting system health metrics...'' @ [CHR 0x0A]) (snd cw);
          d1 = od_set ''timestamp'' (PStr (timestamp c)) (health_data c);
          d2 = od_set ''system'' (get_system_info p) d1
      in bind_r (get_cpu_info p) (\<lambda>cpu.
         let d3 = od_set ''cpu'' cpu d2;
             d4 = od_set ''memory'' (get_memory_info p) d3
         in bind_r (get_disk_info (disk_partitions p)) (\<lambda>disk.
            let d5 = od_set ''disk'' (PList disk) d4;
                d6 = od_set ''network'' (get_network_info p) d5
            in bind_r (get_process_info p) (\<lambda>processes.
               let d7 = od_set ''processes'' processes d6
               in bind_r (get_overall_health d7) (\<lambda>overall.
                  Inr (c\<lparr>health_data := od_set ''overall_health'' (PStr overall) d7\<rparr>, w))))))"

text \<open>
  The checker objects a program can hold: one fresh from the constructor, or one on which
  a collection pass has returned.
\<close>

inductive reachable :: "checker \<Rightarrow> bool" where
  fresh: "reachable (SystemHealthChecker_init now)"
| pass: "reachable c \<Longrightarrow> collect_all_metrics p (c, w) = Inr (c', w') \<Longrightarrow> reachable c'"

section \<open>The structured export\<close>

text \<open>
  \<^verbatim>\<open>json.dump(obj, f, indent=2)\<close>, as the encoder of the standard library writes it:
  the members of a dictionary and the items of a list in their order, one per line,
  indented by two spaces per level; strings escaped to ASCII. How a float is printed is a
  parameter.
\<close>

definition hex_digit :: "nat \<Rightarrow> char" where
  "hex_digit n = ''0123456789abcdef'' ! (n mod 16)"

definition escape_char :: "char \<Rightarrow> string" where
  "escape_char c =
     (let n = (of_char c :: nat)
      in if c = CHR 0x22 then [CHR 0x5C, CHR 0x22]
         else if c = CHR 0x5C then [CHR 0x5C, CHR 0x5C]
         else if c = CHR 0x0A then [CHR 0x5C, CHR ''n'']
         else if c = CHR 0x0D then [CHR 0x5C, CHR ''r'']
         else if c = CHR 0x09 then [CHR 0x5C, CHR ''t'']
         else if c = CHR 0x08 then [CHR 0x5C, CHR ''b'']
         else if c = CHR 0x0C then [CHR 0x5C, CHR ''f'']
         else if 32 \<le> n \<and> n \<le> 126 then [c]
         else [CHR 0x5C, CHR ''u'', CHR ''0'', CHR ''0'', hex_digit (n div 16), hex_digit n])"

definition encode_str :: "string \<Rightarrow> string" where
  "encode_str s = [CHR 0x22] @ concat (map escape_char s) @ [CHR 0x22]"

fun show_nat :: "nat \<Rightarrow> string" where
  "show_nat n =
     (if n < 10 then [''0123456789'' ! n] else show_nat (n div 10) @ [''0123456789'' ! (n mod 10)])"

definition show_int :: "int \<Rightarrow> string" where
  "show_int i = (if i < 0 then ''-'' @ show_nat (nat (- i)) else show_nat (nat i))"

fun join :: "string \<Rightarrow> string list \<Rightarrow> string" where
  "join sep [] = []"
| "join sep [x] = x"
| "join sep (x # y # ys) = x @ sep @ join sep (y # ys)"

definition newline_indent :: "nat \<Rightarrow> string" where
  "newline_indent level = CHR 0x0A # replicate (2 * level) CHR '' ''"

fun json_enc :: "(real \<Rightarrow> string) \<Rightarrow> nat \<Rightarrow> pyval \<Rightarrow> string" where
  "json_enc fr level PNone = ''null''"
| "json_enc fr level (PInt i) = show_int i"
| "json_enc fr level (PFloat r) = fr r"
| "json_enc fr level (PStr s) = encode_str s"
| "json_enc fr level (PList xs) =
     (if xs = [] then ''[]''
      else ''['' @ newline_indent (Suc level)
           @ join ('','' @ newline_indent (Suc level)) (map (json_enc fr (Suc level)) xs)
           @ newline_indent level @ '']'')"
| "json_enc fr level (PDict kvs) =
     (if kvs = [] then ''{}''
      else ''{'' @ newline_indent (Suc level)
           @ join ('','' @ newline_indent (Suc level))
               (map (\<lambda>(k, v). encode_str k @ '': '' @ json_enc fr (Suc level) v) kvs)
           @ newline_indent level @ ''}'')"

text \<open>
  \<^verbatim>\<open>export_to_json\<close>: opening the file for writing may fail; otherwise the file holds
  the serialised \<^verbatim>\<open>health_data\<close> and a line is printed.
\<close>

definition export_to_json ::
  "(real \<Rightarrow> string) \<Rightarrow> string \<Rightarrow> checker \<Rightarrow> world \<Rightarrow> py_exn + world" where
  "export_to_json fr filename c w =
     (case open_error w filename of
        Some e \<Rightarrow> Inl e
      | None \<Rightarrow>
          Inr (print_line (CHR 0x0A # ''Health report exported to: '' @ filename)
                 (w\<lparr>files := (files w)(filename \<mapsto> json_enc fr 0 (PDict (health_data c)))\<rparr>)))"

section \<open>Sample inputs\<close>

definition root_part :: sdiskpart where
  "root_part = \<lparr>device = ''/dev/sda1'', mountpoint = ''/'', fstype = ''ext4''\<rparr>"

definition secure_part :: sdiskpart where
  "secure_part = \<lparr>device = ''/dev/sdb1'', mountpoint = ''/mnt/secure'', fstype = ''ext4''\<rparr>"

definition usage_at :: "real \<Rightarrow> sdiskusage" where
  "usage_at pct =
     \<lparr>du_total = 107374182400, du_used = 0, du_free = 107374182400, du_percent = pct\<rparr>"

definition idle_provider :: provider where
  "idle_provider = \<lparr>
     platform_node = ''host'', platform_system = ''Linux'', platform_version = ''6.1'',
     platform_machine = ''x86_64'', platform_processor = ''x86_64'',
     platform_python_version = ''3.11.4'',
     cpu_percent_percpu = [50, 50], cpu_count_physical = Some 2, cpu_count_logical = Some 2,
     cpu_percent_total = 50, cpu_freq_test = None, cpu_freq_value = None,
     cpu_percent_status = 50,
     virtual_memory = \<lparr>vm_total = 8589934592, vm_available = 4294967296,
       vm_used = 4294967296, vm_percent = 50\<rparr>,
     swap_memory = \<lparr>sw_total = 0, sw_used = 0, sw_percent = 0\<rparr>,
     disk_partitions = [(root_part, Inr (usage_at 95)), (secure_part, Inl PermissionError)],
     net_io_counters = \<lparr>bytes_sent = 0, bytes_recv = 0, packets_sent = 0, packets_recv = 0,
       errin = 0, errout = 0\<rparr>,
     net_if_addrs = [''lo''], pids = [1], process_iter = []\<rparr>"

text \<open>A process for which psutil was denied every figure but the process id.\<close>

definition denied_proc :: "int \<Rightarrow> proc_info" where
  "denied_proc n = \<lparr>pid = n, name = None, cpu_percent = None, memory_percent = None\<rparr>"

definition quiet_world :: world where
  "quiet_world = \<lparr>stdout = [], files = (\<lambda>f. None), open_error = (\<lambda>f. None)\<rparr>"

section \<open>Properties of classification and aggregation\<close>

lemma bind_r_Inr_iff: "bind_r m f = Inr y \<longleftrightarrow> (\<exists>x. m = Inr x \<and> f x = Inr y)"
  by (cases m) simp_all

lemma severity_worst_of:
  assumes "xs \<noteq> []"
  shows "severity (PStr (worst_of xs)) = Max (severity ` set xs)"
proof (rule sym, rule Max_eqI)
  show "finite (severity ` set xs)" by simp
next
  fix y assume "y \<in> severity ` set xs"
  then obtain x where x: "x \<in> set xs" "y = severity x" by blast
  then show "y \<le> severity (PStr (worst_of xs))"
    by (auto simp: severity_def worst_of_def)
next
  from assms obtain x where "x \<in> set xs" by (cases xs) auto
  then show "severity (PStr (worst_of xs)) \<in> severity ` set xs"
    by (auto simp: severity_def worst_of_def image_iff)
qed

lemma worst_disk_status_eq: "worst_disk_status xs = worst_of xs"
  by (simp add: worst_disk_status_def worst_of_def)

lemma worst_of_mem:
  assumes "xs \<noteq> []" "list_all is_status xs"
  shows "PStr (worst_of xs) \<in> set xs"
proof -
  from assms obtain x where x: "x \<in> set xs" by (cases xs) auto
  with assms(2) have "is_status x" by (simp add: list_all_iff)
  with x assms(2) show ?thesis
    unfolding worst_of_def is_status_def list_all_iff by fastforce
qed

lemma map_r_status:
  "list_all2 has_status disks ds \<Longrightarrow> map_r (\<lambda>disk. py_getitem disk ''status'') disks = Inr ds"
proof (induction disks ds rule: list_all2_induct)
  case Nil
  then show ?case by simp
next
  case (Cons d ds s ss)
  then show ?case by (cases d) (simp_all add: has_status_def)
qed

lemma get_overall_health_wf:
  assumes "map_of h ''cpu'' = Some cpu" "has_status cpu sc"
    and "map_of h ''memory'' = Some mem" "has_status mem sm"
    and "map_of h ''disk'' = Some (PList disks)" "list_all2 has_status disks ds"
  shows "get_overall_health h = Inr (worst_of [sc, sm, PStr (worst_disk_status ds)])"
proof -
  from assms(2) have c: "py_getitem cpu ''status'' = Inr sc"
    by (cases cpu) (simp_all add: has_status_def)
  from assms(4) have m: "py_getitem mem ''status'' = Inr sm"
    by (cases mem) (simp_all add: has_status_def)
  show ?thesis
    using assms(1,3,5) c m map_r_status[OF assms(6)]
    by (simp add: get_overall_health_def)
qed

lemma worst_of_flat:
  "worst_of [sc, sm, PStr (worst_disk_status ds)] = worst_of (sc # sm # ds)"
  by (simp add: worst_of_def worst_disk_status_def)

lemma worst_of_subsystems:
  "worst_of [sc, sm, PStr (worst_disk_status ds)] =
   worst_of (sc # sm # (if ds = [] then [] else [PStr (worst_disk_status ds)]))"
  by (simp add: worst_of_def worst_disk_status_def)

lemma get_status_is_status: "is_status (PStr (get_status p))"
  by (simp add: get_status_def is_status_def)

lemma worst_of_is_status: "is_status (PStr (worst_of xs))"
  by (simp add: worst_of_def is_status_def)

lemma get_overall_health_is_status:
  "get_overall_health h = Inr s \<Longrightarrow> is_status (PStr s)"
  by (auto simp: get_overall_health_def bind_r_Inr_iff worst_of_is_status)

text \<open>
  C1. Take a report in which the cpu and the memory entries carry the statuses \<open>sc\<close> and
  \<open>sm\<close> and the disk entry is a list of partition entries with the statuses \<open>ds\<close>, all
  of them status strings. The non-empty subsystem reports are the cpu report, the memory
  report and, when \<open>ds\<close> is not empty, the disk report, whose status is the worst of
  \<open>ds\<close>. The overall status is returned and is the maximum over them in the order
  HEALTHY < WARNING < CRITICAL: it is CRITICAL exactly when one of them is CRITICAL,
  otherwise WARNING exactly when one of them is WARNING, otherwise HEALTHY. The same
  maximum is reached over the cpu, memory and per-partition statuses taken together.
\<close>

theorem overall_health_is_worst_report:
  assumes "map_of h ''cpu'' = Some cpu" "has_status cpu sc"
    and "map_of h ''memory'' = Some mem" "has_status mem sm"
    and "map_of h ''disk'' = Some (PList disks)" "list_all2 has_status disks ds"
    and "is_status sc" "is_status sm" "list_all is_status ds"
  shows "\<exists>r. get_overall_health h = Inr r
    \<and> severity (PStr r) =
        Max (severity ` set (sc # sm # (if ds = [] then [] else [PStr (worst_disk_status ds)])))
    \<and> severity (PStr r) = Max (severity ` set (sc # sm # ds))
    \<and> (r = ''CRITICAL'' \<longleftrightarrow>
         PStr ''CRITICAL'' \<in> set (sc # sm # (if ds = [] then [] else [PStr (worst_disk_status ds)])))
    \<and> (r = ''WARNING'' \<longleftrightarrow>
         PStr ''CRITICAL'' \<notin> set (sc # sm # (if ds = [] then [] else [PStr (worst_disk_status ds)]))
         \<and> PStr ''WARNING'' \<in> set (sc # sm # (if ds = [] then [] else [PStr (worst_disk_status ds)])))
    \<and> (r = ''HEALTHY'' \<longleftrightarrow>
         PStr ''CRITICAL'' \<notin> set (sc # sm # (if ds = [] then [] else [PStr (worst_disk_status ds)]))
         \<and> PStr ''WARNING'' \<notin> set (sc # sm # (if ds = [] then [] else [PStr (worst_disk_status ds)])))"
proof -
  let ?subs = "sc # sm # (if ds = [] then [] else [PStr (worst_disk_status ds)])"
  let ?r = "worst_of ?subs"
  have r: "get_overall_health h = Inr ?r"
    using get_overall_health_wf[OF assms(1-6)] by (simp only: worst_of_subsystems)
  have m1: "severity (PStr ?r) = Max (severity ` set ?subs)"
    by (rule severity_worst_of) simp
  have "?r = worst_of (sc # sm # ds)"
    using worst_of_flat[of sc sm ds] worst_of_subsystems[of sc sm ds] by simp
  then have m2: "severity (PStr ?r) = Max (severity ` set (sc # sm # ds))"
    using severity_worst_of[of "sc # sm # ds"] by simp
  have c: "?r = ''CRITICAL'' \<longleftrightarrow> PStr ''CRITICAL'' \<in> set ?subs"
    unfolding worst_of_def by simp
  have w: "?r = ''WARNING'' \<longleftrightarrow> PStr ''CRITICAL'' \<notin> set ?subs \<and> PStr ''WARNING'' \<in> set ?subs"
    unfolding worst_of_def by simp
  have g: "?r = ''HEALTHY'' \<longleftrightarrow> PStr ''CRITICAL'' \<notin> set ?subs \<and> PStr ''WARNING'' \<notin> set ?subs"
    unfolding worst_of_def by simp
  from r m1 m2 c w g show ?thesis by blast
qed

text \<open>Scenario 2 of the specification: cpu WARNING, memory and the one disk HEALTHY.\<close>

theorem overall_health_is_worst_report_witness:
  "get_overall_health
     [(''cpu'', PDict [(''cpu_percent_total'', PFloat 70), (''status'', PStr ''WARNING'')]),
      (''memory'', PDict [(''status'', PStr ''HEALTHY'')]),
      (''disk'', PList [PDict [(''mountpoint'', PStr ''/''), (''status'', PStr ''HEALTHY'')]])]
   = Inr ''WARNING''"
  using overall_health_is_worst_report
    [of "[(''cpu'', PDict [(''cpu_percent_total'', PFloat 70), (''status'', PStr ''WARNING'')]),
          (''memory'', PDict [(''status'', PStr ''HEALTHY'')]),
          (''disk'', PList [PDict [(''mountpoint'', PStr ''/''), (''status'', PStr ''HEALTHY'')]])]"
        "PDict [(''cpu_percent_total'', PFloat 70), (''status'', PStr ''WARNING'')]"
        "PStr ''WARNING''"
        "PDict [(''status'', PStr ''HEALTHY'')]"
        "PStr ''HEALTHY''"
        "[PDict [(''mountpoint'', PStr ''/''), (''status'', PStr ''HEALTHY'')]]"
        "[PStr ''HEALTHY'']"]
  by (auto simp: has_status_def is_status_def worst_disk_status_def)

text \<open>
  C2, as the code has it. The classifier takes the percentage alone; its cut-offs are
  fixed at 60 and 80. For every real percentage it returns HEALTHY below 60, WARNING from
  60 up to but not including 80, and CRITICAL from 80 on, so also above 100.
\<close>

theorem get_status_fixed_thresholds:
  "(p < 60 \<longrightarrow> get_status p = ''HEALTHY'')
   \<and> (60 \<le> p \<and> p < 80 \<longrightarrow> get_status p = ''WARNING'')
   \<and> (80 \<le> p \<longrightarrow> get_status p = ''CRITICAL'')
   \<and> (100 < p \<longrightarrow> get_status p = ''CRITICAL'')"
  by (simp add: get_status_def)

theorem get_status_fixed_thresholds_witness:
  "get_status 30 = ''HEALTHY'' \<and> get_status 60 = ''WARNING'' \<and> get_status 80 = ''CRITICAL''
   \<and> get_status 150 = ''CRITICAL''"
  using get_status_fixed_thresholds[of 30] get_status_fixed_thresholds[of 60]
    get_status_fixed_thresholds[of 80] get_status_fixed_thresholds[of 150]
  by simp

text \<open>
  No other pair of thresholds can be chosen: with a warning cut-off of 50 and a critical
  cut-off of 70 the percentage 55 would be WARNING, and the classifier says HEALTHY.
\<close>

theorem get_status_ignores_thresholds:
  "(50::real) < 70 \<and> (50::real) \<le> 55 \<and> (55::real) < 70 \<and> get_status 55 = ''HEALTHY''
   \<and> get_status 55 \<noteq> ''WARNING''"
  by (simp add: get_status_def)

text \<open>
  C5, as the code has it. Without a cpu report, and so with no subsystem report at all,
  the aggregation raises a \<^verbatim>\<open>KeyError\<close> for the key \<^verbatim>\<open>cpu\<close>; it returns no status, and
  in particular not HEALTHY.
\<close>

theorem overall_health_without_cpu_fails:
  "map_of h ''cpu'' = None \<Longrightarrow>
     get_overall_health h = Inl (KeyError ''cpu'') \<and> get_overall_health h \<noteq> Inr ''HEALTHY''"
  by (simp add: get_overall_health_def)

theorem overall_health_without_cpu_fails_witness:
  "map_of ([] :: (string \<times> pyval) list) ''cpu'' = None
   \<and> get_overall_health [] = Inl (KeyError ''cpu'') \<and> get_overall_health [] \<noteq> Inr ''HEALTHY''"
  using overall_health_without_cpu_fails[of "[]"] by simp

text \<open>
  The exception raised on an empty report is the dictionary's \<^verbatim>\<open>KeyError\<close>, not an
  \<^verbatim>\<open>AggregationError\<close>.
\<close>

theorem empty_aggregation_raises_key_error:
  "get_overall_health [] = Inl (KeyError ''cpu'')
   \<and> exn_class (KeyError ''cpu'') \<noteq> ''AggregationError''"
  by (simp add: get_overall_health_def)



text \<open>
  C10. The classifier is monotone: a larger percentage never gets a lower severity in the
  order HEALTHY < WARNING < CRITICAL.
\<close>

theorem get_status_mono:
  "p1 \<le> p2 \<Longrightarrow> severity (PStr (get_status p1)) \<le> severity (PStr (get_status p2))"
  by (simp add: get_status_def severity_def)

theorem get_status_mono_witness:
  "(55::real) \<le> 65 \<and> severity (PStr (get_status 55)) \<le> severity (PStr (get_status 65))
   \<and> severity (PStr (get_status 55)) = 0 \<and> severity (PStr (get_status 65)) = 1"
  using get_status_mono[of 55 65] by (simp add: get_status_def severity_def)

section \<open>Properties of disk evaluation\<close>

lemma disk_entry_status: "has_status (disk_entry part u) (PStr (get_status (du_percent u)))"
  by (simp add: disk_entry_def has_status_def)

lemma get_disk_info_loop_Inr:
  "get_disk_info_loop ps acc = Inr r \<Longrightarrow>
     r = acc @ map (\<lambda>pr. disk_entry (fst pr) (projr (snd pr))) (filter (\<lambda>pr. \<not> isl (snd pr)) ps)
     \<and> list_all (\<lambda>pr. \<not> isl (snd pr) \<or> snd pr = Inl PermissionError) ps"
proof (induction ps arbitrary: acc)
  case Nil
  then show ?case by simp
next
  case (Cons a ps)
  obtain part outcome where a: "a = (part, outcome)" by (cases a)
  show ?case
  proof (cases outcome)
    case (Inl e)
    with Cons.prems a have e: "e = PermissionError" and "get_disk_info_loop ps acc = Inr r"
      by (auto split: if_splits)
    with Cons.IH[of acc] a Inl show ?thesis by simp
  next
    case (Inr u)
    with Cons.prems a have "get_disk_info_loop ps (acc @ [disk_entry part u]) = Inr r" by simp
    with Cons.IH[of "acc @ [disk_entry part u]"] a Inr show ?thesis by simp
  qed
qed

lemma get_disk_info_loop_readable:
  "list_all (\<lambda>pr. \<not> isl (snd pr) \<or> snd pr = Inl PermissionError) ps \<Longrightarrow>
   get_disk_info_loop ps acc =
     Inr (acc @ map (\<lambda>pr. disk_entry (fst pr) (projr (snd pr))) (filter (\<lambda>pr. \<not> isl (snd pr)) ps))"
proof (induction ps arbitrary: acc)
  case Nil
  then show ?case by simp
next
  case (Cons a ps)
  obtain part outcome where a: "a = (part, outcome)" by (cases a)
  show ?case
  proof (cases outcome)
    case (Inl e)
    with Cons.prems a have "e = PermissionError" by simp
    with Cons a Inl show ?thesis by simp
  next
    case (Inr u)
    with Cons a show ?thesis by simp
  qed
qed

lemma get_disk_info_statuses:
  assumes "get_disk_info ps = Inr disk"
  shows "list_all2 has_status disk
     (map (\<lambda>pr. PStr (get_status (du_percent (projr (snd pr))))) (filter (\<lambda>pr. \<not> isl (snd pr)) ps))"
proof -
  from assms have
    "disk = map (\<lambda>pr. disk_entry (fst pr) (projr (snd pr))) (filter (\<lambda>pr. \<not> isl (snd pr)) ps)"
    using get_disk_info_loop_Inr[of ps "[]" disk] by (simp add: get_disk_info_def)
  then show ?thesis
    by (simp add: list.rel_map list_all2_same disk_entry_status)
qed

text \<open>
  C3, as the code has it. Let every partition of the list either be read or raise a
  \<^verbatim>\<open>PermissionError\<close>, and let exactly one raise it. Then disk evaluation does not
  raise; it returns exactly one entry less than there are partitions, namely the entries
  of the partitions that were read, in their order. Nothing records the partition that was
  left out: the result is the one the list without that partition gives.
\<close>

theorem unreadable_partition_is_dropped:
  assumes "list_all (\<lambda>pr. \<not> isl (snd pr) \<or> snd pr = Inl PermissionError) ps"
    and "length (filter (\<lambda>pr. snd pr = Inl PermissionError) ps) = 1"
  shows "\<exists>entries. get_disk_info ps = Inr entries
    \<and> length entries = length ps - 1
    \<and> entries = map (\<lambda>pr. disk_entry (fst pr) (projr (snd pr))) (filter (\<lambda>pr. \<not> isl (snd pr)) ps)
    \<and> get_disk_info (filter (\<lambda>pr. \<not> isl (snd pr)) ps) = Inr entries"
proof -
  let ?ok = "filter (\<lambda>pr. \<not> isl (snd pr)) ps"
  let ?entries = "map (\<lambda>pr. disk_entry (fst pr) (projr (snd pr))) ?ok"
  have r: "get_disk_info ps = Inr ?entries"
    using get_disk_info_loop_readable[OF assms(1), of "[]"] by (simp add: get_disk_info_def)
  have "filter (\<lambda>pr. \<not> \<not> isl (snd pr)) ps = filter (\<lambda>pr. snd pr = Inl PermissionError) ps"
    using assms(1) by (intro filter_cong) (auto simp: list_all_iff)
  with assms(2) have "length (filter (\<lambda>pr. \<not> \<not> isl (snd pr)) ps) = 1" by simp
  with sum_length_filter_compl[of "\<lambda>pr. \<not> isl (snd pr)" ps]
  have len: "length ?entries = length ps - 1" by simp
  have "list_all (\<lambda>pr. \<not> isl (snd pr) \<or> snd pr = Inl PermissionError) ?ok"
    by (simp add: list_all_iff)
  from get_disk_info_loop_readable[OF this, of "[]"]
  have same: "get_disk_info ?ok = Inr ?entries" by (simp add: get_disk_info_def)
  from r len same show ?thesis by blast
qed

theorem unreadable_partition_is_dropped_witness:
  "get_disk_info
     [(root_part, Inr (usage_at 40)), (secure_part, Inl PermissionError),
      (root_part\<lparr>mountpoint := ''/home''\<rparr>, Inr (usage_at 70))]
   = Inr [disk_entry root_part (usage_at 40),
          disk_entry (root_part\<lparr>mountpoint := ''/home''\<rparr>) (usage_at 70)]"
  using unreadable_partition_is_dropped
    [of "[(root_part, Inr (usage_at 40)), (secure_part, Inl PermissionError),
          (root_part\<lparr>mountpoint := ''/home''\<rparr>, Inr (usage_at 70))]"]
  by simp

text \<open>
  With the root partition read and a second partition refused, the whole result is the
  one entry of the root partition: there is no skip diagnostic in it, and it is the result
  of a run in which the second partition does not exist.
\<close>

theorem unreadable_partition_leaves_no_diagnostic:
  "get_disk_info [(root_part, Inr (usage_at 40)), (secure_part, Inl PermissionError)]
     = Inr [disk_entry root_part (usage_at 40)]
   \<and> get_disk_info [(root_part, Inr (usage_at 40)), (secure_part, Inl PermissionError)]
     = get_disk_info [(root_part, Inr (usage_at 40))]"
  by (simp add: get_disk_info_def)

text \<open>
  C6. For a non-empty list of partition entries with the statuses \<open>ds\<close>, the statuses
  the aggregation reads from the entries are \<open>ds\<close>, and the disk status it derives is
  one of them and has the greatest severity among them.
\<close>

theorem disk_status_is_worst_partition:
  assumes "entries \<noteq> []" "list_all2 has_status entries ds" "list_all is_status ds"
  shows "map_r (\<lambda>disk. py_getitem disk ''status'') entries = Inr ds
    \<and> PStr (worst_disk_status ds) \<in> set ds
    \<and> severity (PStr (worst_disk_status ds)) = Max (severity ` set ds)"
proof -
  from assms(1,2) have ne: "ds \<noteq> []" by (auto simp: list_all2_Nil2)
  show ?thesis
    using map_r_status[OF assms(2)] worst_of_mem[OF ne assms(3)] severity_worst_of[OF ne]
    by (simp add: worst_disk_status_eq)
qed

text \<open>
  Scenario 3 of the specification: two partitions at 95 and 10 percent, cpu and memory at
  50 percent. The disk status is CRITICAL and so is the overall status.
\<close>

theorem disk_status_is_worst_partition_witness:
  "worst_disk_status [PStr (get_status 95), PStr (get_status 10)] = ''CRITICAL''
   \<and> get_disk_info [(root_part, Inr (usage_at 95)), (secure_part, Inr (usage_at 10))]
       = Inr [disk_entry root_part (usage_at 95), disk_entry secure_part (usage_at 10)]
   \<and> get_overall_health
       [(''cpu'', PDict [(''status'', PStr (get_status 50))]),
        (''memory'', PDict [(''status'', PStr (get_status 50))]),
        (''disk'', PList [disk_entry root_part (usage_at 95), disk_entry secure_part (usage_at 10)])]
       = Inr ''CRITICAL''"
proof -
  have s: "get_status 95 = ''CRITICAL''" "get_status 10 = ''HEALTHY''" "get_status 50 = ''HEALTHY''"
    by (simp_all add: get_status_def)
  have "severity (PStr (worst_disk_status [PStr (get_status 95), PStr (get_status 10)])) = 2"
    using disk_status_is_worst_partition
      [of "[disk_entry root_part (usage_at 95), disk_entry secure_part (usage_at 10)]"
          "[PStr (get_status 95), PStr (get_status 10)]"]
      disk_entry_status[of root_part "usage_at 95"] disk_entry_status[of secure_part "usage_at 10"]
    by (simp add: usage_at_def is_status_def severity_def s)
  then have w: "worst_disk_status [PStr (get_status 95), PStr (get_status 10)] = ''CRITICAL''"
    by (simp add: severity_def split: if_splits)
  have d: "get_disk_info [(root_part, Inr (usage_at 95)), (secure_part, Inr (usage_at 10))]
       = Inr [disk_entry root_part (usage_at 95), disk_entry secure_part (usage_at 10)]"
    by (simp add: get_disk_info_def)
  have o: "get_overall_health
       [(''cpu'', PDict [(''status'', PStr (get_status 50))]),
        (''memory'', PDict [(''status'', PStr (get_status 50))]),
        (''disk'', PList [disk_entry root_part (usage_at 95), disk_entry secure_part (usage_at 10)])]
       = Inr ''CRITICAL''"
    by (simp add: get_overall_health_def disk_entry_def usage_at_def s worst_of_def
        worst_disk_status_def)
  from w d o show ?thesis by simp
qed

section \<open>Properties of collection and export\<close>

lemma map_of_od_set: "map_of (od_set k v d) = (map_of d)(k \<mapsto> v)"
  by (induction d) (auto simp: fun_eq_iff)

lemma od_set_keys:
  "map fst (od_set k v d) = (if k \<in> set (map fst d) then map fst d else map fst d @ [k])"
proof (induction d)
  case Nil
  then show ?case by simp
next
  case (Cons a d)
  obtain k' v' where a: "a = (k', v')" by (cases a)
  show ?case
  proof (cases "k' = k")
    case True
    with a show ?thesis by simp
  next
    case False
    with a Cons.IH show ?thesis by (cases "k \<in> set (map fst d)") simp_all
  qed
qed

lemma alist_of_keys:
  "distinct (map fst d) \<Longrightarrow> d = map (\<lambda>k. (k, the (map_of d k))) (map fst d)"
proof (induction d)
  case Nil
  then show ?case by simp
next
  case (Cons a d)
  obtain k v where a: "a = (k, v)" by (cases a)
  from Cons.prems a have k: "k \<notin> fst ` set d" and dist: "distinct (map fst d)" by auto
  have "map (\<lambda>k'. (k', the (map_of (a # d) k'))) (map fst d)
      = map (\<lambda>k'. (k', the (map_of d k'))) (map fst d)"
    using k a by (intro map_cong) auto
  with Cons.IH[OF dist] a show ?case by simp
qed

lemma get_cpu_info_status:
  "get_cpu_info p = Inr cpu \<Longrightarrow> has_status cpu (PStr (get_status (cpu_percent_status p)))"
  by (auto simp: get_cpu_info_def bind_r_Inr_iff has_status_def)

lemma get_memory_info_status:
  "has_status (get_memory_info p) (PStr (get_status (vm_percent (virtual_memory p))))"
  by (simp add: get_memory_info_def Let_def has_status_def)

lemma collect_all_metrics_Inr:
  assumes "collect_all_metrics p (c, w) = Inr (c', w')"
  shows "\<exists>cpu disk procs overall.
     get_cpu_info p = Inr cpu \<and> get_disk_info (disk_partitions p) = Inr disk
     \<and> get_process_info p = Inr procs
     \<and> get_overall_health
         (od_set ''processes'' procs (od_set ''network'' (get_network_info p)
           (od_set ''disk'' (PList disk) (od_set ''memory'' (get_memory_info p)
             (od_set ''cpu'' cpu (od_set ''system'' (get_system_info p)
               (od_set ''timestamp'' (PStr (timestamp c)) (health_data c)))))))) = Inr overall
     \<and> health_data c' = od_set ''overall_health'' (PStr overall)
         (od_set ''processes'' procs (od_set ''network'' (get_network_info p)
           (od_set ''disk'' (PList disk) (od_set ''memory'' (get_memory_info p)
             (od_set ''cpu'' cpu (od_set ''system'' (get_system_info p)
               (od_set ''timestamp'' (PStr (timestamp c)) (health_data c))))))))
     \<and> timestamp c' = timestamp c"
  using assms
  by (auto simp: collect_all_metrics_def Let_def bind_r_Inr_iff)

lemma collect_all_metrics_lookup:
  assumes "collect_all_metrics p (c, w) = Inr (c', w')"
  shows "\<exists>cpu disk procs overall.
     get_cpu_info p = Inr cpu \<and> get_disk_info (disk_partitions p) = Inr disk
     \<and> get_process_info p = Inr procs
     \<and> overall = worst_of [PStr (get_status (cpu_percent_status p)),
          PStr (get_status (vm_percent (virtual_memory p))),
          PStr (worst_disk_status
            (map (\<lambda>pr. PStr (get_status (du_percent (projr (snd pr)))))
               (filter (\<lambda>pr. \<not> isl (snd pr)) (disk_partitions p))))]
     \<and> map_of (health_data c') = (map_of (health_data c))
          (''timestamp'' \<mapsto> PStr (timestamp c), ''system'' \<mapsto> get_system_info p,
           ''cpu'' \<mapsto> cpu, ''memory'' \<mapsto> get_memory_info p, ''disk'' \<mapsto> PList disk,
           ''network'' \<mapsto> get_network_info p, ''processes'' \<mapsto> procs,
           ''overall_health'' \<mapsto> PStr overall)"
proof -
  from collect_all_metrics_Inr[OF assms] obtain cpu disk procs overall where
    cpu: "get_cpu_info p = Inr cpu" and disk: "get_disk_info (disk_partitions p) = Inr disk"
    and procs: "get_process_info p = Inr procs"
    and ov: "get_overall_health
         (od_set ''processes'' procs (od_set ''network'' (get_network_info p)
           (od_set ''disk'' (PList disk) (od_set ''memory'' (get_memory_info p)
             (od_set ''cpu'' cpu (od_set ''system'' (get_system_info p)
               (od_set ''timestamp'' (PStr (timestamp c)) (health_data c)))))))) = Inr overall"
    and hd: "health_data c' = od_set ''overall_health'' (PStr overall)
         (od_set ''processes'' procs (od_set ''network'' (get_network_info p)
           (od_set ''disk'' (PList disk) (od_set ''memory'' (get_memory_info p)
             (od_set ''cpu'' cpu (od_set ''system'' (get_system_info p)
               (od_set ''timestamp'' (PStr (timestamp c)) (health_data c))))))))"
    by blast
  let ?d7 = "od_set ''processes'' procs (od_set ''network'' (get_network_info p)
           (od_set ''disk'' (PList disk) (od_set ''memory'' (get_memory_info p)
             (od_set ''cpu'' cpu (od_set ''system'' (get_system_info p)
               (od_set ''timestamp'' (PStr (timestamp c)) (health_data c)))))))"
  have "get_overall_health ?d7 = Inr (worst_of [PStr (get_status (cpu_percent_status p)),
          PStr (get_status (vm_percent (virtual_memory p))),
          PStr (worst_disk_status
            (map (\<lambda>pr. PStr (get_status (du_percent (projr (snd pr)))))
               (filter (\<lambda>pr. \<not> isl (snd pr)) (disk_partitions p))))])"
    by (rule get_overall_health_wf[OF _ get_cpu_info_status[OF cpu] _ get_memory_info_status
          _ get_disk_info_statuses[OF disk]])
       (simp_all add: map_of_od_set)
  with ov have "overall = worst_of [PStr (get_status (cpu_percent_status p)),
          PStr (get_status (vm_percent (virtual_memory p))),
          PStr (worst_disk_status
            (map (\<lambda>pr. PStr (get_status (du_percent (projr (snd pr)))))
               (filter (\<lambda>pr. \<not> isl (snd pr)) (disk_partitions p))))]" by simp
  moreover have "map_of (health_data c') = (map_of (health_data c))
          (''timestamp'' \<mapsto> PStr (timestamp c), ''system'' \<mapsto> get_system_info p,
           ''cpu'' \<mapsto> cpu, ''memory'' \<mapsto> get_memory_info p, ''disk'' \<mapsto> PList disk,
           ''network'' \<mapsto> get_network_info p, ''processes'' \<mapsto> procs,
           ''overall_health'' \<mapsto> PStr overall)"
    by (simp add: hd map_of_od_set)
  ultimately show ?thesis using cpu disk procs by blast
qed

text \<open>
  A collection pass returns whenever its three fallible steps do: the aggregation at its
  end always finds the statuses it reads.
\<close>

lemma collect_all_metrics_returns:
  assumes "get_cpu_info p = Inr cpu" "get_disk_info (disk_partitions p) = Inr disk"
    "get_process_info p = Inr procs"
  shows "\<exists>c' w'. collect_all_metrics p (c, w) = Inr (c', w')"
proof -
  let ?d7 = "od_set ''processes'' procs (od_set ''network'' (get_network_info p)
           (od_set ''disk'' (PList disk) (od_set ''memory'' (get_memory_info p)
             (od_set ''cpu'' cpu (od_set ''system'' (get_system_info p)
               (od_set ''timestamp'' (PStr (timestamp c)) (health_data c)))))))"
  have "\<exists>r. get_overall_health ?d7 = Inr r"
    using get_overall_health_wf[OF _ get_cpu_info_status[OF assms(1)] _ get_memory_info_status
          _ get_disk_info_statuses[OF assms(2)], of ?d7]
    by (simp add: map_of_od_set)
  then show ?thesis
    using assms by (auto simp: collect_all_metrics_def Let_def)
qed

lemma collect_all_metrics_keys:
  assumes "map fst (health_data c) = [] \<or> map fst (health_data c) =
      [''timestamp'', ''system'', ''cpu'', ''memory'', ''disk'', ''network'', ''processes'',
       ''overall_health'']"
    and "collect_all_metrics p (c, w) = Inr (c', w')"
  shows "map fst (health_data c') =
      [''timestamp'', ''system'', ''cpu'', ''memory'', ''disk'', ''network'', ''processes'',
       ''overall_health'']"
proof -
  from collect_all_metrics_Inr[OF assms(2)] obtain cpu disk procs overall where
    hd: "health_data c' = od_set ''overall_health'' (PStr overall)
         (od_set ''processes'' procs (od_set ''network'' (get_network_info p)
           (od_set ''disk'' (PList disk) (od_set ''memory'' (get_memory_info p)
             (od_set ''cpu'' cpu (od_set ''system'' (get_system_info p)
               (od_set ''timestamp'' (PStr (timestamp c)) (health_data c))))))))"
    by blast
  from assms(1) show ?thesis
  proof
    assume "map fst (health_data c) = []"
    then show ?thesis by (simp add: hd od_set_keys)
  next
    assume "map fst (health_data c) =
      [''timestamp'', ''system'', ''cpu'', ''memory'', ''disk'', ''network'', ''processes'',
       ''overall_health'']"
    then show ?thesis by (simp add: hd od_set_keys)
  qed
qed

lemma reachable_keys:
  "reachable c \<Longrightarrow> map fst (health_data c) = [] \<or> map fst (health_data c) =
      [''timestamp'', ''system'', ''cpu'', ''memory'', ''disk'', ''network'', ''processes'',
       ''overall_health'']"
proof (induction rule: reachable.induct)
  case (fresh now)
  then show ?case by (simp add: SystemHealthChecker_init_def)
next
  case (pass c p w c' w')
  from collect_all_metrics_keys[OF pass.IH pass.hyps(2)] show ?case by simp
qed

text \<open>
  When no partition can be read, disk evaluation returns the empty list, the report
  carries it, and the overall status is the worst of the cpu and memory statuses alone:
  the verdict is the one of a reduction that leaves the disk subsystem out.
\<close>

lemma unreadable_disk_subsystem_is_excluded:
  assumes "list_all (\<lambda>pr. snd pr = Inl PermissionError) (disk_partitions p)"
    and "collect_all_metrics p (c, w) = Inr (c', w')"
  shows "get_disk_info (disk_partitions p) = Inr []
    \<and> map_of (health_data c') ''disk'' = Some (PList [])
    \<and> map_of (health_data c') ''overall_health'' =
        Some (PStr (worst_of [PStr (get_status (cpu_percent_status p)),
                              PStr (get_status (vm_percent (virtual_memory p)))]))"
proof -
  from assms(1) have none: "filter (\<lambda>pr. \<not> isl (snd pr)) (disk_partitions p) = []"
    by (auto simp: list_all_iff filter_empty_conv)
  from assms(1) have
    "list_all (\<lambda>pr. \<not> isl (snd pr) \<or> snd pr = Inl PermissionError) (disk_partitions p)"
    by (simp add: list_all_iff)
  from get_disk_info_loop_readable[OF this, of "[]"] none
  have d: "get_disk_info (disk_partitions p) = Inr []" by (simp add: get_disk_info_def)
  have e: "worst_of [PStr (get_status (cpu_percent_status p)),
                 PStr (get_status (vm_percent (virtual_memory p))),
                 PStr (worst_disk_status [])]
      = worst_of [PStr (get_status (cpu_percent_status p)),
                  PStr (get_status (vm_percent (virtual_memory p)))]"
    by (simp add: worst_of_def worst_disk_status_def)
  from collect_all_metrics_lookup[OF assms(2)] d none
  have "map_of (health_data c') ''disk'' = Some (PList [])
    \<and> map_of (health_data c') ''overall_health'' =
        Some (PStr (worst_of [PStr (get_status (cpu_percent_status p)),
                              PStr (get_status (vm_percent (virtual_memory p))),
                              PStr (worst_disk_status [])]))"
    by auto
  with d e show ?thesis by simp
qed

lemma unreadable_disk_subsystem_is_excluded_example:
  "\<exists>c' w'. collect_all_metrics (idle_provider\<lparr>disk_partitions := [(secure_part, Inl PermissionError)]\<rparr>)
       (SystemHealthChecker_init ''2024-01-01T00:00:00'', quiet_world) = Inr (c', w')
     \<and> map_of (health_data c') ''disk'' = Some (PList [])
     \<and> map_of (health_data c') ''overall_health'' = Some (PStr ''HEALTHY'')"
proof -
  let ?p = "idle_provider\<lparr>disk_partitions := [(secure_part, Inl PermissionError)]\<rparr>"
  have "\<exists>cpu. get_cpu_info ?p = Inr cpu"
    by (simp add: get_cpu_info_def idle_provider_def)
  moreover have "get_disk_info (disk_partitions ?p) = Inr []"
    by (simp add: get_disk_info_def)
  moreover have "\<exists>procs. get_process_info ?p = Inr procs"
    by (simp add: get_process_info_def sorted_reverse_def idle_provider_def)
  ultimately obtain c' w' where
    c: "collect_all_metrics ?p (SystemHealthChecker_init ''2024-01-01T00:00:00'', quiet_world)
          = Inr (c', w')"
    using collect_all_metrics_returns[of ?p] by blast
  have "list_all (\<lambda>pr. snd pr = Inl PermissionError) (disk_partitions ?p)" by simp
  from unreadable_disk_subsystem_is_excluded[OF this c]
  have "map_of (health_data c') ''disk'' = Some (PList [])
     \<and> map_of (health_data c') ''overall_health'' = Some (PStr ''HEALTHY'')"
    by (simp add: idle_provider_def get_status_def worst_of_def)
  with c show ?thesis by blast
qed

text \<open>
  The process list is evaluated otherwise. A process whose memory figure was denied
  makes the rounding raise a \<^verbatim>\<open>TypeError\<close>; the \<^verbatim>\<open>except\<close> clause of the loop names
  \<^verbatim>\<open>NoSuchProcess\<close> and \<^verbatim>\<open>AccessDenied\<close>, so the exception leaves process evaluation
  and the collection pass.
\<close>

lemma map_r_process_entry_denied:
  "list_ex (\<lambda>proc. memory_percent proc = None) procs \<Longrightarrow>
     map_r process_entry procs = Inl TypeError"
proof (induction procs)
  case Nil
  then show ?case by simp
next
  case (Cons a procs)
  show ?case
  proof (cases "memory_percent a")
    case None
    then show ?thesis by (simp add: process_entry_def)
  next
    case (Some m)
    with Cons show ?thesis by (simp add: process_entry_def)
  qed
qed

lemma get_process_info_denied:
  "list_ex (\<lambda>proc. memory_percent proc = None) (take 5 (sorted_reverse (process_iter p))) \<Longrightarrow>
     get_process_info p = Inl TypeError"
  by (simp add: get_process_info_def map_r_process_entry_denied)

lemma collect_all_metrics_raises:
  assumes "get_cpu_info p = Inr cpu" "get_disk_info (disk_partitions p) = Inr disk"
    "get_process_info p = Inl e"
  shows "collect_all_metrics p cw = Inl e"
  using assms by (simp add: collect_all_metrics_def Let_def)

text \<open>
  C4. A multi-item subsystem all of whose items fail should leave a report with an empty
  item list that takes no part in the worst-case reduction. For the disk partitions the
  code does so. For the process list it does not: when both listed processes were denied
  their memory figure, process evaluation raises a \<^verbatim>\<open>TypeError\<close> instead of returning
  an empty list of processes, and the collection pass raises it too, so that no report
  exists.
\<close>

theorem unreadable_processes_abort_collection:
  "get_process_info (idle_provider\<lparr>process_iter := [denied_proc 1, denied_proc 2]\<rparr>)
     = Inl TypeError
   \<and> collect_all_metrics (idle_provider\<lparr>process_iter := [denied_proc 1, denied_proc 2]\<rparr>)
       (SystemHealthChecker_init ''2024-01-01T00:00:00'', quiet_world) = Inl TypeError"
proof -
  let ?p = "idle_provider\<lparr>process_iter := [denied_proc 1, denied_proc 2]\<rparr>"
  have "list_ex (\<lambda>proc. memory_percent proc = None) (take 5 (sorted_reverse (process_iter ?p)))"
    by (simp add: sorted_reverse_def denied_proc_def cpu_key_def)
  then have procs: "get_process_info ?p = Inl TypeError"
    by (rule get_process_info_denied)
  obtain cpu where cpu: "get_cpu_info ?p = Inr cpu"
    by (simp add: get_cpu_info_def idle_provider_def)
  obtain disk where disk: "get_disk_info (disk_partitions ?p) = Inr disk"
    by (simp add: get_disk_info_def idle_provider_def)
  from collect_all_metrics_raises[OF cpu disk procs] procs show ?thesis by simp
qed

text \<open>
  C7. For a checker object fresh from the constructor or left by earlier collection
  passes, every collection pass that returns leaves the report with its fields in the
  order timestamp, system, cpu, memory, disk, network, processes, overall_health; the
  overall status is one of HEALTHY, WARNING, CRITICAL; and the exported file holds the
  fields in that order, one member per line.
\<close>

theorem export_fields_in_collection_order:
  assumes "reachable c"
    and "collect_all_metrics p (c, w) = Inr (c', w')"
    and "export_to_json fr filename c' w' = Inr w''"
  shows "\<exists>cpu disk procs overall.
     health_data c' =
       [(''timestamp'', PStr (timestamp c)), (''system'', get_system_info p), (''cpu'', cpu),
        (''memory'', get_memory_info p), (''disk'', PList disk),
        (''network'', get_network_info p), (''processes'', procs),
        (''overall_health'', PStr overall)]
     \<and> overall \<in> {''HEALTHY'', ''WARNING'', ''CRITICAL''}
     \<and> files w'' filename = Some
         (''{'' @ newline_indent 1
          @ encode_str ''timestamp'' @ '': '' @ json_enc fr 1 (PStr (timestamp c))
          @ '','' @ newline_indent 1
          @ encode_str ''system'' @ '': '' @ json_enc fr 1 (get_system_info p)
          @ '','' @ newline_indent 1
          @ encode_str ''cpu'' @ '': '' @ json_enc fr 1 cpu
          @ '','' @ newline_indent 1
          @ encode_str ''memory'' @ '': '' @ json_enc fr 1 (get_memory_info p)
          @ '','' @ newline_indent 1
          @ encode_str ''disk'' @ '': '' @ json_enc fr 1 (PList disk)
          @ '','' @ newline_indent 1
          @ encode_str ''network'' @ '': '' @ json_enc fr 1 (get_network_info p)
          @ '','' @ newline_indent 1
          @ encode_str ''processes'' @ '': '' @ json_enc fr 1 procs
          @ '','' @ newline_indent 1
          @ encode_str ''overall_health'' @ '': '' @ encode_str overall
          @ newline_indent 0 @ ''}'')"
proof -
  let ?K = "[''timestamp'', ''system'', ''cpu'', ''memory'', ''disk'', ''network'',
             ''processes'', ''overall_health'']"
  from collect_all_metrics_lookup[OF assms(2)] obtain cpu disk procs overall where
    ov: "overall = worst_of [PStr (get_status (cpu_percent_status p)),
          PStr (get_status (vm_percent (virtual_memory p))),
          PStr (worst_disk_status
            (map (\<lambda>pr. PStr (get_status (du_percent (projr (snd pr)))))
               (filter (\<lambda>pr. \<not> isl (snd pr)) (disk_partitions p))))]"
    and m: "map_of (health_data c') = (map_of (health_data c))
          (''timestamp'' \<mapsto> PStr (timestamp c), ''system'' \<mapsto> get_system_info p,
           ''cpu'' \<mapsto> cpu, ''memory'' \<mapsto> get_memory_info p, ''disk'' \<mapsto> PList disk,
           ''network'' \<mapsto> get_network_info p, ''processes'' \<mapsto> procs,
           ''overall_health'' \<mapsto> PStr overall)"
    by blast
  have keys: "map fst (health_data c') = ?K"
    by (rule collect_all_metrics_keys[OF reachable_keys[OF assms(1)] assms(2)])
  then have "distinct (map fst (health_data c'))" by simp
  from alist_of_keys[OF this]
  have "health_data c' = map (\<lambda>k. (k, the (map_of (health_data c') k))) ?K"
    by (simp only: keys)
  then have hd: "health_data c' =
       [(''timestamp'', PStr (timestamp c)), (''system'', get_system_info p), (''cpu'', cpu),
        (''memory'', get_memory_info p), (''disk'', PList disk),
        (''network'', get_network_info p), (''processes'', procs),
        (''overall_health'', PStr overall)]"
    by (simp add: m)
  have st: "overall \<in> {''HEALTHY'', ''WARNING'', ''CRITICAL''}"
    by (simp add: ov worst_of_def)
  from assms(3) have "files w'' filename = Some (json_enc fr 0 (PDict (health_data c')))"
    by (auto simp: export_to_json_def print_line_def split: option.splits)
  then have "files w'' filename = Some
         (''{'' @ newline_indent 1
          @ encode_str ''timestamp'' @ '': '' @ json_enc fr 1 (PStr (timestamp c))
          @ '','' @ newline_indent 1
          @ encode_str ''system'' @ '': '' @ json_enc fr 1 (get_system_info p)
          @ '','' @ newline_indent 1
          @ encode_str ''cpu'' @ '': '' @ json_enc fr 1 cpu
          @ '','' @ newline_indent 1
          @ encode_str ''memory'' @ '': '' @ json_enc fr 1 (get_memory_info p)
          @ '','' @ newline_indent 1
          @ encode_str ''disk'' @ '': '' @ json_enc fr 1 (PList disk)
          @ '','' @ newline_indent 1
          @ encode_str ''network'' @ '': '' @ json_enc fr 1 (get_network_info p)
          @ '','' @ newline_indent 1
          @ encode_str ''processes'' @ '': '' @ json_enc fr 1 procs
          @ '','' @ newline_indent 1
          @ encode_str ''overall_health'' @ '': '' @ encode_str overall
          @ newline_indent 0 @ ''}'')"
    by (simp add: hd)
  with hd st show ?thesis by blast
qed

theorem export_fields_in_collection_order_witness:
  "\<exists>c' w' w''. collect_all_metrics idle_provider
       (SystemHealthChecker_init ''2024-01-01T00:00:00'', quiet_world) = Inr (c', w')
     \<and> export_to_json (\<lambda>r. ''0.0'') ''system_health_report.json'' c' w' = Inr w''
     \<and> map fst (health_data c') =
         [''timestamp'', ''system'', ''cpu'', ''memory'', ''disk'', ''network'', ''processes'',
          ''overall_health'']
     \<and> map_of (health_data c') ''overall_health'' = Some (PStr ''CRITICAL'')
     \<and> files w'' ''system_health_report.json''
         = Some (json_enc (\<lambda>r. ''0.0'') 0 (PDict (health_data c')))"
proof -
  let ?c = "SystemHealthChecker_init ''2024-01-01T00:00:00''"
  have "\<exists>cpu. get_cpu_info idle_provider = Inr cpu"
    by (simp add: get_cpu_info_def idle_provider_def)
  moreover have "\<exists>disk. get_disk_info (disk_partitions idle_provider) = Inr disk"
    by (simp add: get_disk_info_def idle_provider_def)
  moreover have "\<exists>procs. get_process_info idle_provider = Inr procs"
    by (simp add: get_process_info_def sorted_reverse_def idle_provider_def)
  ultimately obtain c' w' where
    c: "collect_all_metrics idle_provider (?c, quiet_world) = Inr (c', w')"
    using collect_all_metrics_returns[of idle_provider] by blast
  then have "open_error w' = (\<lambda>f. None)"
    by (auto simp: collect_all_metrics_def Let_def bind_r_Inr_iff print_line_def quiet_world_def)
  then obtain w'' where
    e: "export_to_json (\<lambda>r. ''0.0'') ''system_health_report.json'' c' w' = Inr w''"
    by (simp add: export_to_json_def)
  from export_fields_in_collection_order[OF reachable.fresh c e] obtain cpu disk procs overall where
    hd: "health_data c' =
       [(''timestamp'', PStr (timestamp ?c)), (''system'', get_system_info idle_provider),
        (''cpu'', cpu), (''memory'', get_memory_info idle_provider), (''disk'', PList disk),
        (''network'', get_network_info idle_provider), (''processes'', procs),
        (''overall_health'', PStr overall)]"
    by blast
  from collect_all_metrics_lookup[OF c] have
    "map_of (health_data c') ''overall_health'' = Some (PStr ''CRITICAL'')"
    by (auto simp: idle_provider_def usage_at_def get_status_def worst_of_def worst_disk_status_def)
  moreover from e have "files w'' ''system_health_report.json''
         = Some (json_enc (\<lambda>r. ''0.0'') 0 (PDict (health_data c')))"
    by (auto simp: export_to_json_def print_line_def split: option.splits)
  ultimately show ?thesis using c e hd by auto
qed

text \<open>
  C8. The exported bytes are a function of the report's contents alone: two exports of
  checkers holding the same report write the same bytes, whatever the file names, the
  state of the file system and the output before; in particular exporting one report twice
  gives twice the same bytes.
\<close>

theorem export_is_function_of_report:
  assumes "health_data c1 = health_data c2"
    and "export_to_json fr f1 c1 w1 = Inr w1'"
    and "export_to_json fr f2 c2 w2 = Inr w2'"
  shows "files w1' f1 = files w2' f2
    \<and> files w1' f1 = Some (json_enc fr 0 (PDict (health_data c1)))"
  using assms by (auto simp: export_to_json_def print_line_def split: option.splits)

theorem export_is_function_of_report_witness:
  "\<exists>w1 w2.
     export_to_json (\<lambda>r. ''0.0'') ''a.json''
       \<lparr>timestamp = ''2024-01-01T00:00:00'', health_data = [(''overall_health'', PStr ''HEALTHY'')]\<rparr>
       quiet_world = Inr w1
     \<and> export_to_json (\<lambda>r. ''0.0'') ''b.json''
       \<lparr>timestamp = ''2024-01-01T00:00:00'', health_data = [(''overall_health'', PStr ''HEALTHY'')]\<rparr>
       w1 = Inr w2
     \<and> files w1 ''a.json'' = files w2 ''b.json''"
proof -
  let ?c = "\<lparr>timestamp = ''2024-01-01T00:00:00'',
             health_data = [(''overall_health'', PStr ''HEALTHY'')]\<rparr>"
  obtain w1 where w1: "export_to_json (\<lambda>r. ''0.0'') ''a.json'' ?c quiet_world = Inr w1"
    by (simp add: export_to_json_def quiet_world_def)
  then have "open_error w1 = (\<lambda>f. None)"
    by (auto simp: export_to_json_def quiet_world_def print_line_def)
  then obtain w2 where w2: "export_to_json (\<lambda>r. ''0.0'') ''b.json'' ?c w1 = Inr w2"
    by (simp add: export_to_json_def)
  from export_is_function_of_report[OF refl w1 w2] w1 w2 show ?thesis by blast
qed

end
